theory Spec2Isabelle
  imports Complex_Main "HOL-Library.Word"
begin

unbundle bit_operations_syntax

section \<open>Data model\<close>

text \<open>
  Times are JavaScript numbers holding milliseconds (\<open>MillisecsTimestamp\<close>); they are
  modelled as reals, so the arithmetic on them is exact. Measure indices
  (\<open>MeasureIndex\<close>) index the array \<open>_timemap\<close> and are naturals.
\<close>

type_synonym MeasureIndex = nat
type_synonym MillisecsTimestamp = real

text \<open>One entry of the converter's \<open>timemap\<close>: \<open>{ measure, timestamp }\<close>.\<close>

record MeasureTimemapEntry =
  measure_of :: MeasureIndex
  timestamp :: MillisecsTimestamp

text \<open>One slot of \<open>Player._timemap\<close>: \<open>{ start, duration }\<close>.\<close>

record MeasureRecord =
  start :: MillisecsTimestamp
  duration :: MillisecsTimestamp

type_synonym Timemap = "MeasureIndex \<rightharpoonup> MeasureRecord"

section \<open>The constructor's timemap loop (Player.ts, lines 152-166)\<close>

text \<open>
  The body of the \<open>forEach\<close> callback \<open>(entry, i, timemap)\<close>: a slot that is still
  \<open>undefined\<close> is filled from the entry at position \<open>i\<close>; a slot that is already
  defined is left alone.
\<close>

definition timemap_step :: "MeasureTimemapEntry list \<Rightarrow> Timemap \<Rightarrow> nat \<Rightarrow> Timemap" where
  "timemap_step tm m i =
     (let entry = tm ! i in
      if m (measure_of entry) = None
      then m(measure_of entry \<mapsto>
             \<lparr> start = timestamp entry,
               duration = (if i < length tm - 1
                           then timestamp (tm ! (i + 1)) - timestamp entry
                           else 0) \<rparr>)
      else m)"

text \<open>\<open>this._timemap = []; this._converter.timemap.forEach(...)\<close>.\<close>

definition build_timemap :: "MeasureTimemapEntry list \<Rightarrow> Timemap" where
  "build_timemap tm = foldl (timemap_step tm) Map.empty [0..<length tm]"

text \<open>The record the constructor's loop writes at position \<open>i\<close> of the raw timemap.\<close>

definition record_at :: "MeasureTimemapEntry list \<Rightarrow> nat \<Rightarrow> MeasureRecord" where
  "record_at tm i =
     \<lparr> start = timestamp (tm ! i),
       duration = (if i + 1 < length tm then timestamp (tm ! (i + 1)) - timestamp (tm ! i) else 0) \<rparr>"

section \<open>The engine state\<close>

text \<open>
  \<open>PlayerState\<close> of the underlying MIDI player (package \<open>midi-player\<close>, not part of
  the repository). Of the MIDI player the engine only reads \<open>state\<close>. Its methods are
  taken to do what their names say: \<open>play\<close> and \<open>resume\<close> leave it playing,
  \<open>pause\<close> paused and \<open>stop\<close> stopped, \<open>seek\<close> moves its position and leaves
  its state as it is, and none of them raises.
\<close>

datatype PlayerState = Stopped | Playing | Paused

text \<open>
  The calls the engine issues to its collaborators: the MIDI player \<open>_midiPlayer\<close>, the
  sheet renderer \<open>_renderer\<close> and the MIDI output \<open>_output\<close>. The renderer's
  \<open>moveTo\<close> receives three arguments from \<open>moveTo\<close> and \<open>rewind\<close> and a fourth one
  (the duration) from the synchronization tick.
\<close>

datatype Call =
    MidiSeek MillisecsTimestamp
  | MidiPlay
  | MidiResume
  | MidiPause
  | MidiStop
  | RendererMoveTo MeasureIndex MillisecsTimestamp MillisecsTimestamp "MillisecsTimestamp option"
  | OutputSend "8 word list" "real option"

text \<open>
  The private fields of \<open>Player\<close> (without the leading underscore), the converter's raw
  timemap, the state reported by the MIDI player, and the log of the calls issued to the
  collaborators so far (newest last).
\<close>

record Player =
  midiState :: PlayerState
  playbackStart :: MillisecsTimestamp
  playbackPause :: MillisecsTimestamp
  measureIndex :: MeasureIndex
  measureStart :: MillisecsTimestamp
  measureOffset :: MillisecsTimestamp
  timemap :: Timemap
  converter_timemap :: "MeasureTimemapEntry list"
  mute :: bool
  calls :: "Call list"

text \<open>
  A JavaScript exception is a value: \<open>Thrown e p\<close> says that the call raised \<open>e\<close> and
  left the object in state \<open>p\<close>; \<open>Returned p\<close> that it returned normally.
\<close>

datatype error = TypeError

datatype 'a outcome = Returned 'a | Thrown error 'a

fun state_of :: "'a outcome \<Rightarrow> 'a" where
  "state_of (Returned p) = p"
| "state_of (Thrown e p) = p"

text \<open>The last position handed to the renderer: what a reader of the cursor sees.\<close>

fun last_moveTo :: "Call list \<Rightarrow>
    (MeasureIndex \<times> MillisecsTimestamp \<times> MillisecsTimestamp) option" where
  "last_moveTo [] = None"
| "last_moveTo (c # cs) =
     (case last_moveTo cs of
        Some r \<Rightarrow> Some r
      | None \<Rightarrow> (case c of RendererMoveTo i s ofs d \<Rightarrow> Some (i, s, ofs) | _ \<Rightarrow> None))"

definition position_read :: "Player \<Rightarrow>
    (MeasureIndex \<times> MillisecsTimestamp \<times> MillisecsTimestamp) option" where
  "position_read p = last_moveTo (calls p)"

section \<open>Construction (Player.ts, lines 128-182)\<close>

text \<open>
  The constructor initializes the playback state and builds \<open>_timemap\<close>; the MIDI player
  it creates is stopped. No statement of the constructor raises on any timemap.
\<close>

definition new_Player :: "MeasureTimemapEntry list \<Rightarrow> Player outcome" where
  "new_Player tm = Returned
     \<lparr> midiState = Stopped,
       playbackStart = 0,
       playbackPause = 0,
       measureIndex = 0,
       measureStart = 0,
       measureOffset = 0,
       timemap = build_timemap tm,
       converter_timemap = tm,
       mute = False,
       calls = [] \<rparr>"

section \<open>Transport (Player.ts, lines 192-227)\<close>

text \<open>
  \<open>moveTo\<close>: \<open>now\<close> is the value of \<open>performance.now()\<close>. Reading \<open>.start\<close> of a missing
  slot of \<open>_timemap\<close> raises a TypeError before anything is changed. The MIDI player's
  \<open>seek\<close> leaves its state as it is.
\<close>

definition moveTo ::
    "MeasureIndex \<Rightarrow> MillisecsTimestamp \<Rightarrow> MillisecsTimestamp \<Rightarrow> real \<Rightarrow> Player \<Rightarrow> Player outcome" where
  "moveTo mIndex mStart mOffset now p =
     (case timemap p mIndex of
        None \<Rightarrow> Thrown TypeError p
      | Some r \<Rightarrow>
          (let ts = start r + mOffset in
           Returned (p\<lparr> measureIndex := mIndex,
                        measureStart := now - mOffset,
                        playbackStart := now - ts,
                        playbackPause := now,
                        calls := calls p @ [MidiSeek ts, RendererMoveTo mIndex mStart mOffset None] \<rparr>)))"

text \<open>\<open>pause\<close>: a no-op unless the MIDI player is playing.\<close>

definition pause :: "real \<Rightarrow> Player \<Rightarrow> Player" where
  "pause now p =
     (if midiState p \<noteq> Playing then p
      else p\<lparr> midiState := Paused, playbackPause := now, calls := calls p @ [MidiPause] \<rparr>)"

text \<open>\<open>rewind\<close>.\<close>

definition rewind :: "Player \<Rightarrow> Player" where
  "rewind p = p\<lparr> midiState := Stopped, playbackStart := 0,
                 calls := calls p @ [MidiStop, RendererMoveTo 0 0 0 None] \<rparr>"

text \<open>
  \<open>_play\<close>, up to its \<open>await\<close> (lines 275-331): the anchors are shifted or set, the
  first frame is requested, and the MIDI player is resumed or started.
\<close>

definition play_inner :: "real \<Rightarrow> Player \<Rightarrow> Player" where
  "play_inner now p =
     (let p1 = (if midiState p = Paused \<or> playbackStart p \<noteq> 0
                then p\<lparr> playbackStart := playbackStart p + (now - playbackPause p),
                        measureStart := measureStart p + (now - playbackPause p) \<rparr>
                else p\<lparr> playbackStart := now, measureIndex := 0, measureStart := now \<rparr>)
      in if midiState p1 = Paused
         then p1\<lparr> midiState := Playing, calls := calls p1 @ [MidiResume] \<rparr>
         else p1\<lparr> midiState := Playing, calls := calls p1 @ [MidiPlay] \<rparr>)"

text \<open>
  The rest of \<open>_play\<close> (lines 333-336), run when the promise of the MIDI player's
  \<open>play\<close> or \<open>resume\<close> settles.
\<close>

definition play_settled :: "Player \<Rightarrow> Player" where
  "play_settled p = (if midiState p \<noteq> Paused then p\<lparr> playbackStart := 0 \<rparr> else p)"

text \<open>\<open>play\<close>: a no-op when the MIDI player is playing.\<close>

definition play :: "real \<Rightarrow> Player \<Rightarrow> Player" where
  "play now p = (if midiState p = Playing then p else play_inner now p)"

text \<open>The MIDI player reaches the end of the file: it stops and its promise settles.\<close>

definition ended :: "Player \<Rightarrow> Player" where
  "ended p = (if midiState p = Playing then play_settled (p\<lparr> midiState := Stopped \<rparr>) else p)"

section \<open>The synchronization tick (Player.ts, lines 289-321)\<close>

text \<open>
  Modelled from the spec: the helper \<open>binarySearch\<close> of \<open>./helpers\<close> is not among the
  sources. The spec describes a binary search of the sorted raw sequence with the caller's
  comparator, which returns the index of an entry that compares equal and otherwise the
  insertion point \<open>m\<close> in the complement encoding \<open>- m - 1\<close>, so that the caller's
  \<open>max(0, -index - 2)\<close> is the floor entry. The comparator is applied to the element
  looked for and the entry probed.
\<close>

function binarySearch_loop ::
    "'a list \<Rightarrow> 'a \<Rightarrow> ('a \<Rightarrow> 'a \<Rightarrow> real) \<Rightarrow> int \<Rightarrow> int \<Rightarrow> int" where
  "binarySearch_loop ar el compare_fn m n =
     (if m \<le> n
      then (let k = (n + m) div 2;
                cmp = compare_fn el (ar ! nat k)
            in if cmp > 0 then binarySearch_loop ar el compare_fn (k + 1) n
               else if cmp < 0 then binarySearch_loop ar el compare_fn m (k - 1)
               else k)
      else - m - 1)"
  by pat_completeness auto
termination
  by (relation "Wellfounded.measure (\<lambda>(ar, el, compare_fn, m, n). nat (n - m + 1))") auto

declare binarySearch_loop.simps [simp del]

definition binarySearch :: "'a list \<Rightarrow> 'a \<Rightarrow> ('a \<Rightarrow> 'a \<Rightarrow> real) \<Rightarrow> int" where
  "binarySearch ar el compare_fn = binarySearch_loop ar el compare_fn 0 (int (length ar) - 1)"

text \<open>\<open>Number.EPSILON\<close> is \<open>2\<^sup>-\<^sup>5\<^sup>2\<close>.\<close>

definition Number_EPSILON :: real where
  "Number_EPSILON = 1 / 2 ^ 52"

text \<open>The comparator of the tick (lines 299-303).\<close>

definition compare_timestamps :: "MeasureTimemapEntry \<Rightarrow> MeasureTimemapEntry \<Rightarrow> real" where
  "compare_timestamps a b =
     (let d = timestamp a - timestamp b in if \<bar>d\<bar> < Number_EPSILON then 0 else d)"

text \<open>
  The index of the raw entry the tick reads (lines 293-306), and one run of
  \<open>synchronizeMidi(now)\<close>. The frames are requested from the browser; here
  each run is an event of its own, with the time the browser passes. An index outside the
  raw timemap yields \<open>undefined\<close>, and reading \<open>.measure\<close> of it raises; so does reading
  \<open>.start\<close> of a missing slot of \<open>_timemap\<close>, after the fields have been assigned.
\<close>

definition entry_index :: "MeasureTimemapEntry list \<Rightarrow> real \<Rightarrow> int" where
  "entry_index tm elapsed =
     (let index = binarySearch tm \<lparr> measure_of = 0, timestamp = elapsed \<rparr> compare_timestamps
      in if index \<ge> 0 then index else max 0 (- index - 2))"

definition synchronizeMidi :: "real \<Rightarrow> Player \<Rightarrow> Player outcome" where
  "synchronizeMidi now p =
     (if midiState p \<noteq> Playing then Returned p
      else
        (let j = entry_index (converter_timemap p) (now - playbackStart p)
         in if \<not> nat j < length (converter_timemap p) then Thrown TypeError p
            else
              (let entry = converter_timemap p ! nat j;
                   p1 = (if measureIndex p \<noteq> measure_of entry
                         then p\<lparr> measureIndex := measure_of entry, measureStart := now \<rparr>
                         else p);
                   p2 = p1\<lparr> measureOffset := max 0 (now - measureStart p1) \<rparr>
               in case timemap p2 (measureIndex p2) of
                    None \<Rightarrow> Thrown TypeError p2
                  | Some r \<Rightarrow>
                      Returned (p2\<lparr> calls := calls p2 @
                        [RendererMoveTo (measureIndex p2) (start r) (measureOffset p2)
                           (Some (duration r))] \<rparr>))))"

section \<open>The external clock (Player.ts, lines 339-352)\<close>

text \<open>The vector returned by the timing object's \<open>query()\<close>.\<close>

record TimingVector =
  position :: real
  velocity :: real

text \<open>
  \<open>_handleTimingsrcChange\<close>: \<open>vector\<close> is \<open>None\<close> when \<open>_timingsrc\<close> is \<open>null\<close>, so
  that \<open>vector?.velocity\<close> is \<open>undefined\<close> and the comparison with 0 fails.
\<close>

definition handleTimingsrcChange :: "TimingVector option \<Rightarrow> real \<Rightarrow> Player \<Rightarrow> Player" where
  "handleTimingsrcChange vector now p =
     (case vector of
        None \<Rightarrow> play now p
      | Some v \<Rightarrow>
          (if velocity v = 0
           then (if position v = 0 then rewind p else pause now p)
           else play now p))"

section \<open>The output router (Player.ts, lines 262-269)\<close>

text \<open>
  The event \<open>parseMidiEvent\<close> returns, as far as \<open>send\<close> looks at it: whether it
  has a property \<open>channel\<close>.
\<close>

datatype MidiEvent = ChannelEvent "8 word" | OtherEvent

text \<open>\<open>'channel' in event\<close>.\<close>

fun has_channel :: "MidiEvent \<Rightarrow> bool" where
  "has_channel (ChannelEvent c) = True"
| "has_channel OtherEvent = False"

text \<open>
  \<open>send\<close>. The helper \<open>parseMidiEvent\<close> of \<open>./helpers\<close> is not among the sources and
  is the parameter \<open>parse\<close>.
\<close>

definition send ::
    "(8 word list \<Rightarrow> MidiEvent) \<Rightarrow> 8 word list \<Rightarrow> real option \<Rightarrow> Player \<Rightarrow> Player" where
  "send parse data ts p =
     (if mute p then p
      else (let event = parse data
            in if has_channel event
               then p\<lparr> calls := calls p @ [OutputSend data ts] \<rparr>
               else p))"

text \<open>
  Modelled from the spec: the helper \<open>parseMidiEvent\<close> parses the leading status byte to
  tell a channel event from a meta or other non-channel event. Which status bytes are
  channel statuses is the parameter \<open>channel_status\<close>; a channel event carries the
  channel, the low four bits of the status byte.
\<close>

definition parseMidiEvent :: "(8 word \<Rightarrow> bool) \<Rightarrow> 8 word list \<Rightarrow> MidiEvent" where
  "parseMidiEvent channel_status data =
     (case data of
        [] \<Rightarrow> OtherEvent
      | status # _ \<Rightarrow> if channel_status status then ChannelEvent (status AND 0xf) else OtherEvent)"

text \<open>The events that have reached the output.\<close>

fun sent :: "Call list \<Rightarrow> (8 word list \<times> real option) list" where
  "sent [] = []"
| "sent (OutputSend data ts # cs) = (data, ts) # sent cs"
| "sent (c # cs) = sent cs"

section \<open>The built-in synthesizer output (SoundFontOutput)\<close>

text \<open>
  What \<open>queueWaveTable\<close> is asked to play: the preset variable, the audio time, the
  pitch, the duration and the volume. The envelope it returns is opaque to the output.
\<close>

record Envelope =
  preset :: string
  when_time :: real
  wave_pitch :: "8 word"
  wave_duration :: real
  volume :: real

text \<open>\<open>TNote\<close>.\<close>

record TNote =
  channel :: "8 word"
  pitch :: "8 word"
  note_velocity :: "8 word"
  on :: real
  off :: "real option"
  envelope :: Envelope

text \<open>
  An entry of \<open>TChannelMap\<close>: the variable of the instrument, or the variables of the
  drums by beat.
\<close>

record ChannelInfo =
  instrumentInfo :: "string option"
  beats :: "(8 word \<rightharpoonup> string) option"

record SoundFontOutput =
  notes_list :: "TNote list"
  channels :: "8 word \<rightharpoonup> ChannelInfo"

text \<open>The two clocks \<open>noteOn\<close> reads: \<open>audioContext.currentTime\<close> and \<open>performance.now()\<close>.\<close>

record Clocks =
  currentTime :: real
  performance_now :: real

definition MIDI_CHANNEL_DRUMS :: "8 word" where
  "MIDI_CHANNEL_DRUMS = 9"

text \<open>
  The variable \<open>noteOn\<close> looks up (lines 136-139); a missing channel, beat table, beat or
  instrument makes the property access raise.
\<close>

definition instrument_of :: "SoundFontOutput \<Rightarrow> 8 word \<Rightarrow> 8 word \<Rightarrow> string option" where
  "instrument_of st ch p =
     (case channels st ch of
        None \<Rightarrow> None
      | Some ci \<Rightarrow>
          (if ch = MIDI_CHANNEL_DRUMS
           then (case beats ci of None \<Rightarrow> None | Some bs \<Rightarrow> bs p)
           else instrumentInfo ci))"

definition noteOn ::
    "Clocks \<Rightarrow> 8 word \<Rightarrow> 8 word \<Rightarrow> real \<Rightarrow> 8 word \<Rightarrow> SoundFontOutput \<Rightarrow> SoundFontOutput outcome" where
  "noteOn clk ch p ts v st =
     (case instrument_of st ch p of
        None \<Rightarrow> Thrown TypeError st
      | Some instrument \<Rightarrow>
          (let w = currentTime clk + (ts - performance_now clk) / 1000
           in Returned (st\<lparr> notes_list := notes_list st @
                [\<lparr> channel = ch, pitch = p, note_velocity = v, on = ts, off = None,
                   envelope = \<lparr> preset = instrument, when_time = w, wave_pitch = p,
                                wave_duration = 100000,
                                volume = real (unat v) / 127 \<rparr> \<rparr>] \<rparr>)))"

text \<open>
  \<open>noteOff\<close>: \<open>find\<close> returns the first note of that pitch and channel that is still
  on, and its \<open>off\<close> is set. The pitch is \<open>None\<close> when the event has no second byte;
  no note has an undefined pitch.
\<close>

definition note_matches :: "8 word \<Rightarrow> 8 word \<Rightarrow> TNote \<Rightarrow> bool" where
  "note_matches ch p note = (pitch note = p \<and> channel note = ch \<and> off note = None)"

fun set_off :: "8 word \<Rightarrow> 8 word \<Rightarrow> real \<Rightarrow> TNote list \<Rightarrow> TNote list" where
  "set_off ch p ts [] = []"
| "set_off ch p ts (note # ns) =
     (if note_matches ch p note
      then note\<lparr> off := Some ts \<rparr> # ns
      else note # set_off ch p ts ns)"

definition noteOff :: "8 word \<Rightarrow> 8 word option \<Rightarrow> real \<Rightarrow> SoundFontOutput \<Rightarrow> SoundFontOutput" where
  "noteOff ch p ts st =
     (case p of None \<Rightarrow> st | Some q \<Rightarrow> st\<lparr> notes_list := set_off ch q ts (notes_list st) \<rparr>)"

text \<open>
  The \<open>switch\<close> of \<open>send\<close> on one event: status byte, pitch and velocity, the last two
  \<open>None\<close> where the data is too short (\<open>undefined > 0\<close> is false).
\<close>

definition send_one ::
    "Clocks \<Rightarrow> 8 word \<Rightarrow> 8 word option \<Rightarrow> 8 word option \<Rightarrow> real \<Rightarrow> SoundFontOutput
     \<Rightarrow> SoundFontOutput outcome" where
  "send_one clk status p v ts st =
     (let ch = status AND 0xf;
          type = drop_bit 4 status
      in if type = 9
         then (case (p, v) of
                 (Some q, Some w) \<Rightarrow>
                   if w > 0 then noteOn clk ch q ts w st else Returned (noteOff ch p ts st)
               | _ \<Rightarrow> Returned (noteOff ch p ts st))
         else if type = 8 then Returned (noteOff ch p ts st)
         else Returned st)"

text \<open>
  \<open>SoundFontOutput.send\<close>: the first three bytes are one event; what follows them is
  sent recursively. Empty data has status \<open>undefined\<close>, whose type is 0.
\<close>

fun soundfont_send :: "Clocks \<Rightarrow> 8 word list \<Rightarrow> real \<Rightarrow> SoundFontOutput \<Rightarrow> SoundFontOutput outcome" where
  "soundfont_send clk [] ts st = Returned st"
| "soundfont_send clk [b0] ts st = send_one clk b0 None None ts st"
| "soundfont_send clk [b0, b1] ts st = send_one clk b0 (Some b1) None ts st"
| "soundfont_send clk (b0 # b1 # b2 # rest) ts st =
     (case send_one clk b0 (Some b1) (Some b2) ts st of
        Thrown e st' \<Rightarrow> Thrown e st'
      | Returned st' \<Rightarrow> if rest \<noteq> [] then soundfont_send clk rest ts st' else Returned st')"

section \<open>The scenario of the spec\<close>

text \<open>The raw timemap with a repeat back to measure 0.\<close>

definition repeat_timemap :: "MeasureTimemapEntry list" where
  "repeat_timemap =
     [\<lparr> measure_of = 0, timestamp = 0 \<rparr>,
      \<lparr> measure_of = 1, timestamp = 500 \<rparr>,
      \<lparr> measure_of = 0, timestamp = 900 \<rparr>,
      \<lparr> measure_of = 2, timestamp = 1400 \<rparr>]"

section \<open>Sequences of events\<close>

text \<open>
  What can happen to an engine: the calls of its public methods, a frame of the
  synchronization loop, the end of the MIDI file, the rest of an earlier \<open>_play\<close>
  running after its \<open>await\<close>, a MIDI event handed over by the MIDI player, an
  assignment to \<open>mute\<close>, and a change notification of the external clock. Each event
  that reads \<open>performance.now()\<close> carries the time read. The rest of \<open>_play\<close> may
  run at any point of a sequence, which covers every moment the promise can settle at.
\<close>

datatype Op =
    OpMoveTo MeasureIndex MillisecsTimestamp MillisecsTimestamp real
  | OpPlay real
  | OpPause real
  | OpRewind
  | OpTick real
  | OpEnded
  | OpSettled
  | OpSend "8 word list" "real option"
  | OpMute bool
  | OpChange "TimingVector option" real

fun exec :: "(8 word list \<Rightarrow> MidiEvent) \<Rightarrow> Op \<Rightarrow> Player \<Rightarrow> Player outcome" where
  "exec parse (OpMoveTo i s ofs now) p = moveTo i s ofs now p"
| "exec parse (OpPlay now) p = Returned (play now p)"
| "exec parse (OpPause now) p = Returned (pause now p)"
| "exec parse OpRewind p = Returned (rewind p)"
| "exec parse (OpTick now) p = synchronizeMidi now p"
| "exec parse OpEnded p = Returned (ended p)"
| "exec parse OpSettled p = Returned (play_settled p)"
| "exec parse (OpSend data ts) p = Returned (send parse data ts p)"
| "exec parse (OpMute b) p = Returned (p\<lparr> mute := b \<rparr>)"
| "exec parse (OpChange vector now) p = Returned (handleTimingsrcChange vector now p)"

text \<open>The state after a sequence of events; an event that raises leaves the state it raised in.\<close>

fun run :: "(8 word list \<Rightarrow> MidiEvent) \<Rightarrow> Op list \<Rightarrow> Player \<Rightarrow> Player" where
  "run parse [] p = p"
| "run parse (ev # evs) p = run parse evs (state_of (exec parse ev p))"

fun is_thrown :: "'a outcome \<Rightarrow> bool" where
  "is_thrown (Returned p) = False"
| "is_thrown (Thrown e p) = True"

text \<open>
  What the outside sees of one event: whether it raised, the calls it issued to the
  collaborators, and the state the getter \<open>state\<close> reports afterwards.
\<close>

definition observe :: "(8 word list \<Rightarrow> MidiEvent) \<Rightarrow> Op \<Rightarrow> Player \<Rightarrow> bool \<times> Call list \<times> PlayerState" where
  "observe parse ev p =
     (let r = exec parse ev p
      in (is_thrown r, drop (length (calls p)) (calls (state_of r)), midiState (state_of r)))"

fun trace :: "(8 word list \<Rightarrow> MidiEvent) \<Rightarrow> Op list \<Rightarrow> Player \<Rightarrow> (bool \<times> Call list \<times> PlayerState) list" where
  "trace parse [] p = []"
| "trace parse (ev # evs) p = observe parse ev p # trace parse evs (state_of (exec parse ev p))"

section \<open>Engines with the same future\<close>

text \<open>
  Two engines are related when they agree on the state of the MIDI player, the global
  anchor, the timemaps and the mute flag, on the tracked measure and its anchor unless the
  engine is stopped with the anchor at zero, and on the pause instant unless the engine is
  playing or stopped with the anchor at zero. The field \<open>measureOffset\<close> and the calls
  issued before are not compared.
\<close>

definition same_future :: "Player \<Rightarrow> Player \<Rightarrow> bool" where
  "same_future p q \<longleftrightarrow>
     midiState p = midiState q \<and> playbackStart p = playbackStart q \<and>
     timemap p = timemap q \<and> converter_timemap p = converter_timemap q \<and> mute p = mute q \<and>
     (midiState p = Stopped \<and> playbackStart p = 0 \<or>
        measureIndex p = measureIndex q \<and> measureStart p = measureStart q) \<and>
     (midiState p = Playing \<or> midiState p = Stopped \<and> playbackStart p = 0 \<or>
        playbackPause p = playbackPause q)"

section \<open>Concrete engines and outputs\<close>

text \<open>The engine constructed from the scenario's timemap, never started.\<close>

definition scenario_player :: Player where
  "scenario_player = state_of (new_Player repeat_timemap)"

text \<open>
  That engine after \<open>play()\<close> at 1000, \<open>pause()\<close> at 2000 and, at 3000, a
  \<open>moveTo\<close> to measure 1 at offset 2500, that is to timestamp 3000 of the MIDI file.
\<close>

definition paused_at_zero :: Player where
  "paused_at_zero =
     run (\<lambda>data. OtherEvent) [OpPlay 1000, OpPause 2000, OpMoveTo 1 500 2500 3000] scenario_player"

text \<open>That engine after \<open>play()\<close> at 1000 and a frame at 1890, in measure 1.\<close>

definition playing_in_measure_1 :: Player where
  "playing_in_measure_1 = run (\<lambda>data. OtherEvent) [OpPlay 1000, OpTick 1890] scenario_player"

text \<open>A synthesizer with one instrument on channel 3 on which the note 60 is sounding.\<close>

definition sounding :: SoundFontOutput where
  "sounding =
     \<lparr> notes_list =
         [\<lparr> channel = 3, pitch = 60, note_velocity = 100, on = 1500, off = None,
            envelope = \<lparr> preset = ''_tone_0000_Aspirin_sf2_file'', when_time = 5 / 2,
                         wave_pitch = 60, wave_duration = 100000, volume = 100 / 127 \<rparr> \<rparr>],
       channels = [3 \<mapsto> \<lparr> instrumentInfo = Some ''_tone_0000_Aspirin_sf2_file'', beats = None \<rparr>] \<rparr>"

text \<open>The scenario's engine after \<open>play()\<close> at 1000.\<close>

definition playing_from_1000 :: Player where
  "playing_from_1000 = play 1000 scenario_player"

text \<open>A parser for which the statuses below \<open>0xF0\<close> are channel statuses.\<close>

definition below_system_status :: "8 word list \<Rightarrow> MidiEvent" where
  "below_system_status = parseMidiEvent (\<lambda>status. status < 0xF0)"

section \<open>The timemap index\<close>

lemma timemap_step_defined:
  "m k \<noteq> None \<Longrightarrow> timemap_step tm m i k = m k"
  by (auto simp: timemap_step_def Let_def)

lemma timemap_step_other:
  "measure_of (tm ! i) \<noteq> k \<Longrightarrow> timemap_step tm m i k = m k"
  by (simp add: timemap_step_def Let_def)

lemma timemap_step_fresh:
  "m (measure_of (tm ! i)) = None \<Longrightarrow> timemap_step tm m i (measure_of (tm ! i)) = Some (record_at tm i)"
  by (auto simp: timemap_step_def Let_def record_at_def)

text \<open>
  The loop after \<open>n\<close> entries: a measure not seen yet has no slot, and a measure seen has
  the record of its first position.
\<close>

lemma timemap_prefix:
  "((\<forall>j<n. measure_of (tm ! j) \<noteq> k) \<longrightarrow>
      foldl (timemap_step tm) Map.empty [0..<n] k = None) \<and>
   (\<forall>i<n. measure_of (tm ! i) = k \<and> (\<forall>j<i. measure_of (tm ! j) \<noteq> k) \<longrightarrow>
      foldl (timemap_step tm) Map.empty [0..<n] k = Some (record_at tm i))"
proof (induction n)
  case 0
  show ?case by simp
next
  case (Suc n)
  let ?m = "foldl (timemap_step tm) Map.empty [0..<n]"
  have unseen: "(\<forall>j<n. measure_of (tm ! j) \<noteq> k) \<Longrightarrow> ?m k = None"
    using Suc.IH by blast
  have seen: "\<And>i. i < n \<Longrightarrow> measure_of (tm ! i) = k \<Longrightarrow> \<forall>j<i. measure_of (tm ! j) \<noteq> k
      \<Longrightarrow> ?m k = Some (record_at tm i)"
    using Suc.IH by blast
  have unfold: "foldl (timemap_step tm) Map.empty [0..<Suc n] = timemap_step tm ?m n"
    by simp
  show ?case
  proof (intro conjI impI allI)
    assume none: "\<forall>j<Suc n. measure_of (tm ! j) \<noteq> k"
    then have "?m k = None" and "measure_of (tm ! n) \<noteq> k"
      using unseen by simp_all
    then show "foldl (timemap_step tm) Map.empty [0..<Suc n] k = None"
      unfolding unfold by (simp add: timemap_step_other)
  next
    fix i
    assume i: "i < Suc n"
      and first: "measure_of (tm ! i) = k \<and> (\<forall>j<i. measure_of (tm ! j) \<noteq> k)"
    show "foldl (timemap_step tm) Map.empty [0..<Suc n] k = Some (record_at tm i)"
    proof (cases "i = n")
      case True
      with first have "?m (measure_of (tm ! n)) = None"
        using unseen by simp
      then show ?thesis
        unfolding unfold using True first timemap_step_fresh [of ?m tm n] by simp
    next
      case False
      with i have "i < n" by simp
      then have "?m k = Some (record_at tm i)"
        using seen first by simp
      then show ?thesis
        unfolding unfold by (simp add: timemap_step_defined)
    qed
  qed
qed

lemma build_timemap_dom: "dom (build_timemap tm) = measure_of ` set tm"
proof (intro set_eqI iffI)
  fix k
  assume "k \<in> dom (build_timemap tm)"
  then have "build_timemap tm k \<noteq> None" by auto
  then have "\<not> (\<forall>j<length tm. measure_of (tm ! j) \<noteq> k)"
    using timemap_prefix [of "length tm" tm k] by (auto simp: build_timemap_def)
  then obtain j where "j < length tm" and "measure_of (tm ! j) = k"
    by auto
  then show "k \<in> measure_of ` set tm"
    using nth_mem [of j tm] by force
next
  fix k
  assume "k \<in> measure_of ` set tm"
  then obtain i0 where i0: "i0 < length tm" "measure_of (tm ! i0) = k"
    by (auto simp: in_set_conv_nth)
  define i where "i = (LEAST i. i < length tm \<and> measure_of (tm ! i) = k)"
  have P: "i < length tm \<and> measure_of (tm ! i) = k"
    unfolding i_def using i0 by (intro LeastI [of "\<lambda>i. i < length tm \<and> measure_of (tm ! i) = k" i0]) simp
  have least: "\<forall>j<i. measure_of (tm ! j) \<noteq> k"
  proof (intro allI impI notI)
    fix j assume "j < i" and "measure_of (tm ! j) = k"
    with P have "j < length tm \<and> measure_of (tm ! j) = k" by simp
    then have "i \<le> j" unfolding i_def by (rule Least_le)
    with \<open>j < i\<close> show False by simp
  qed
  have "build_timemap tm k = Some (record_at tm i)"
    using timemap_prefix [of "length tm" tm k] P least by (auto simp: build_timemap_def)
  then show "k \<in> dom (build_timemap tm)" by auto
qed

text \<open>
  C1. The timemap index built by the constructor gives the measure index of every raw
  entry exactly one record, and no other index a record. The record of a measure index
  has as start the timestamp of the first raw entry with that index, and as duration the
  timestamp of the raw entry right after that first occurrence minus the start, or 0 when
  the first occurrence is the last raw entry. A slot that is defined is not written
  again by a later entry. Nothing of this needs the raw timemap to be sorted, so it holds
  for every sorted one.
\<close>

theorem build_timemap_first_occurrence:
  "dom (build_timemap tm) = measure_of ` set tm \<and>
   (\<forall>i<length tm. (\<forall>j<i. measure_of (tm ! j) \<noteq> measure_of (tm ! i)) \<longrightarrow>
      build_timemap tm (measure_of (tm ! i)) =
        Some \<lparr> start = timestamp (tm ! i),
               duration = (if i + 1 < length tm
                           then timestamp (tm ! (i + 1)) - timestamp (tm ! i) else 0) \<rparr>) \<and>
   (\<forall>(m::Timemap) i k. m k \<noteq> None \<longrightarrow> timemap_step tm m i k = m k)"
proof (intro conjI allI impI)
  show "dom (build_timemap tm) = measure_of ` set tm"
    by (rule build_timemap_dom)
next
  fix i
  assume "i < length tm" and "\<forall>j<i. measure_of (tm ! j) \<noteq> measure_of (tm ! i)"
  then have "build_timemap tm (measure_of (tm ! i)) = Some (record_at tm i)"
    using timemap_prefix [of "length tm" tm "measure_of (tm ! i)"]
    by (auto simp: build_timemap_def)
  then show "build_timemap tm (measure_of (tm ! i)) =
        Some \<lparr> start = timestamp (tm ! i),
               duration = (if i + 1 < length tm
                           then timestamp (tm ! (i + 1)) - timestamp (tm ! i) else 0) \<rparr>"
    by (simp add: record_at_def)
next
  fix m :: Timemap and i k
  assume "m k \<noteq> None"
  then show "timemap_step tm m i k = m k"
    by (rule timemap_step_defined)
qed

text \<open>
  The theorem of C1 at the scenario's timemap: measure 0 keeps the record of its first
  entry, although it comes again at 900.
\<close>

theorem build_timemap_first_occurrence_witness:
  "(0::nat) < length repeat_timemap \<and>
   measure_of (repeat_timemap ! 2) = measure_of (repeat_timemap ! 0) \<and>
   build_timemap repeat_timemap 0 = Some \<lparr> start = 0, duration = 500 \<rparr> \<and>
   dom (build_timemap repeat_timemap) = {0, 1, 2} \<and>
   timemap_step repeat_timemap [0 \<mapsto> \<lparr> start = 0, duration = 500 \<rparr>] 2 0
     = Some \<lparr> start = 0, duration = 500 \<rparr>"
proof -
  note all = build_timemap_first_occurrence [of repeat_timemap]
  have len: "(0::nat) < length repeat_timemap"
    by (simp add: repeat_timemap_def)
  have again: "measure_of (repeat_timemap ! 2) = measure_of (repeat_timemap ! 0)"
    by (simp add: repeat_timemap_def)
  have domain: "dom (build_timemap repeat_timemap) = {0, 1, 2}"
    using all [THEN conjunct1] by (simp add: repeat_timemap_def insert_commute)
  have first: "build_timemap repeat_timemap 0 = Some \<lparr> start = 0, duration = 500 \<rparr>"
    using all [THEN conjunct2, THEN conjunct1, rule_format, of 0] len
    by (simp add: repeat_timemap_def)
  have defined: "[0 \<mapsto> \<lparr> start = 0, duration = 500 \<rparr>] (0::nat) \<noteq> None"
    by simp
  have kept: "timemap_step repeat_timemap [0 \<mapsto> \<lparr> start = 0, duration = 500 \<rparr>] 2 0
        = Some \<lparr> start = 0, duration = 500 \<rparr>"
    using all [THEN conjunct2, THEN conjunct2, rule_format,
        of "[0 \<mapsto> \<lparr> start = 0, duration = 500 \<rparr>]" 0 2] defined
    by simp
  show ?thesis
    using len again first domain kept by (intro conjI)
qed

section \<open>The scenario, evaluated\<close>

lemma scenario_timemap:
  "build_timemap repeat_timemap =
     [0 \<mapsto> \<lparr> start = 0, duration = 500 \<rparr>,
      1 \<mapsto> \<lparr> start = 500, duration = 400 \<rparr>,
      2 \<mapsto> \<lparr> start = 1400, duration = 0 \<rparr>]"
  by (simp add: build_timemap_def repeat_timemap_def timemap_step_def upt_rec fun_eq_iff)

lemma scenario_player_eq:
  "scenario_player =
     \<lparr> midiState = Stopped, playbackStart = 0, playbackPause = 0, measureIndex = 0,
       measureStart = 0, measureOffset = 0,
       timemap = build_timemap repeat_timemap,
       converter_timemap = repeat_timemap, mute = False, calls = [] \<rparr>"
  by (simp add: scenario_player_def new_Player_def)

lemma playing_from_1000_eq:
  "playing_from_1000 =
     \<lparr> midiState = Playing, playbackStart = 1000, playbackPause = 0, measureIndex = 0,
       measureStart = 1000, measureOffset = 0,
       timemap = build_timemap repeat_timemap,
       converter_timemap = repeat_timemap, mute = False, calls = [MidiPlay] \<rparr>"
  by (simp add: playing_from_1000_def scenario_player_eq play_def play_inner_def)

lemma repeat_timemap_nth:
  "length repeat_timemap = 4"
  "repeat_timemap ! 0 = \<lparr> measure_of = 0, timestamp = 0 \<rparr>"
  "repeat_timemap ! 1 = \<lparr> measure_of = 1, timestamp = 500 \<rparr>"
  "repeat_timemap ! Suc 0 = \<lparr> measure_of = 1, timestamp = 500 \<rparr>"
  "repeat_timemap ! 2 = \<lparr> measure_of = 0, timestamp = 900 \<rparr>"
  "repeat_timemap ! 3 = \<lparr> measure_of = 2, timestamp = 1400 \<rparr>"
  by (simp_all add: repeat_timemap_def)

lemma compare_timestamps_eval:
  "compare_timestamps \<lparr> measure_of = m, timestamp = a \<rparr> \<lparr> measure_of = k, timestamp = b \<rparr> =
     (if \<bar>a - b\<bar> < 1 / 2 ^ 52 then 0 else a - b)"
  by (simp add: compare_timestamps_def Number_EPSILON_def)

lemma search_950:
  "binarySearch repeat_timemap \<lparr> measure_of = 0, timestamp = 950 \<rparr> compare_timestamps = - 4"
  by (simp add: binarySearch_def repeat_timemap_def compare_timestamps_eval binarySearch_loop.simps)

lemma search_900:
  "binarySearch repeat_timemap \<lparr> measure_of = 0, timestamp = 900 \<rparr> compare_timestamps = 2"
  by (simp add: binarySearch_def repeat_timemap_def compare_timestamps_eval binarySearch_loop.simps)

lemma search_890:
  "binarySearch repeat_timemap \<lparr> measure_of = 0, timestamp = 890 \<rparr> compare_timestamps = - 3"
  by (simp add: binarySearch_def repeat_timemap_def compare_timestamps_eval binarySearch_loop.simps)

lemma entry_index_scenario:
  "entry_index repeat_timemap 950 = 2"
  "entry_index repeat_timemap 900 = 2"
  "entry_index repeat_timemap 890 = 1"
  by (simp_all add: entry_index_def search_950 search_900 search_890)

section \<open>The tick in normal form\<close>

lemma synchronizeMidi_not_playing:
  "midiState p \<noteq> Playing \<Longrightarrow> synchronizeMidi now p = Returned p"
  by (simp add: synchronizeMidi_def)

lemma synchronizeMidi_playing:
  assumes "midiState p = Playing"
  shows "synchronizeMidi now p =
     (let j = nat (entry_index (converter_timemap p) (now - playbackStart p))
      in if \<not> j < length (converter_timemap p) then Thrown TypeError p
         else
           (let m = measure_of (converter_timemap p ! j);
                ms = (if measureIndex p \<noteq> m then now else measureStart p);
                p2 = p\<lparr> measureIndex := m, measureStart := ms, measureOffset := max 0 (now - ms) \<rparr>
            in case timemap p m of
                 None \<Rightarrow> Thrown TypeError p2
               | Some r \<Rightarrow>
                   Returned (p2\<lparr> calls := calls p @
                     [RendererMoveTo m (start r) (max 0 (now - ms)) (Some (duration r))] \<rparr>)))"
  using assms by (simp add: synchronizeMidi_def Let_def split: option.splits)

lemma tick_resolved:
  assumes playing: "midiState p = Playing"
    and found: "entry_index (converter_timemap p) (now - playbackStart p) = int j"
    and in_range: "j < length (converter_timemap p)"
    and entry: "converter_timemap p ! j = \<lparr> measure_of = m, timestamp = t \<rparr>"
    and slot: "timemap p m = Some r"
  shows "synchronizeMidi now p =
     Returned (p\<lparr> measureIndex := m,
                  measureStart := (if measureIndex p \<noteq> m then now else measureStart p),
                  measureOffset := (if measureIndex p \<noteq> m then 0 else max 0 (now - measureStart p)),
                  calls := calls p @
                    [RendererMoveTo m (start r)
                       (if measureIndex p \<noteq> m then 0 else max 0 (now - measureStart p))
                       (Some (duration r))] \<rparr>)"
  using in_range entry slot
  by (simp add: synchronizeMidi_playing [OF playing] found Let_def)

lemma tick_scenario_at_950:
  assumes "midiState p = Playing"
    and "converter_timemap p = repeat_timemap"
    and "timemap p = build_timemap repeat_timemap"
    and "now - playbackStart p = 950"
  shows "synchronizeMidi now p =
     Returned (p\<lparr> measureIndex := 0,
                  measureStart := (if measureIndex p \<noteq> 0 then now else measureStart p),
                  measureOffset := (if measureIndex p \<noteq> 0 then 0 else max 0 (now - measureStart p)),
                  calls := calls p @
                    [RendererMoveTo 0 0
                       (if measureIndex p \<noteq> 0 then 0 else max 0 (now - measureStart p))
                       (Some 500)] \<rparr>)"
  using tick_resolved [of p now 2 0 900 "\<lparr> start = 0, duration = 500 \<rparr>"] assms
  by (simp add: entry_index_scenario repeat_timemap_nth scenario_timemap)

lemma tick_scenario_at_900:
  assumes "midiState p = Playing"
    and "converter_timemap p = repeat_timemap"
    and "timemap p = build_timemap repeat_timemap"
    and "now - playbackStart p = 900"
  shows "synchronizeMidi now p =
     Returned (p\<lparr> measureIndex := 0,
                  measureStart := (if measureIndex p \<noteq> 0 then now else measureStart p),
                  measureOffset := (if measureIndex p \<noteq> 0 then 0 else max 0 (now - measureStart p)),
                  calls := calls p @
                    [RendererMoveTo 0 0
                       (if measureIndex p \<noteq> 0 then 0 else max 0 (now - measureStart p))
                       (Some 500)] \<rparr>)"
  using tick_resolved [of p now 2 0 900 "\<lparr> start = 0, duration = 500 \<rparr>"] assms
  by (simp add: entry_index_scenario repeat_timemap_nth scenario_timemap)

lemma tick_scenario_at_890:
  assumes "midiState p = Playing"
    and "converter_timemap p = repeat_timemap"
    and "timemap p = build_timemap repeat_timemap"
    and "now - playbackStart p = 890"
  shows "synchronizeMidi now p =
     Returned (p\<lparr> measureIndex := 1,
                  measureStart := (if measureIndex p \<noteq> 1 then now else measureStart p),
                  measureOffset := (if measureIndex p \<noteq> 1 then 0 else max 0 (now - measureStart p)),
                  calls := calls p @
                    [RendererMoveTo 1 500
                       (if measureIndex p \<noteq> 1 then 0 else max 0 (now - measureStart p))
                       (Some 400)] \<rparr>)"
  using tick_resolved [of p now 1 1 500 "\<lparr> start = 500, duration = 400 \<rparr>"] assms
  by (simp add: entry_index_scenario repeat_timemap_nth scenario_timemap)

lemma playing_in_measure_1_eq:
  "playing_in_measure_1 =
     \<lparr> midiState = Playing, playbackStart = 1000, playbackPause = 0, measureIndex = 1,
       measureStart = 1890, measureOffset = 0,
       timemap = build_timemap repeat_timemap,
       converter_timemap = repeat_timemap, mute = False,
       calls = [MidiPlay, RendererMoveTo 1 500 0 (Some 400)] \<rparr>"
proof -
  have "synchronizeMidi 1890 playing_from_1000 =
      Returned \<lparr> midiState = Playing, playbackStart = 1000, playbackPause = 0, measureIndex = 1,
       measureStart = 1890, measureOffset = 0,
       timemap = build_timemap repeat_timemap,
       converter_timemap = repeat_timemap, mute = False,
       calls = [MidiPlay, RendererMoveTo 1 500 0 (Some 400)] \<rparr>"
    using tick_scenario_at_890 [of playing_from_1000 1890]
    by (simp add: playing_from_1000_eq)
  then show ?thesis
    by (simp add: playing_in_measure_1_def playing_from_1000_def)
qed

section \<open>The tick in the scenario\<close>

text \<open>
  C2, as stated, fails. The engine has played the scenario's timemap since 1000 and a
  frame at elapsed time 890 has found measure 1. The frame at elapsed time 950 resolves
  measure 0, but at measure offset 0, not 50: the tick has just moved the measure-local
  anchor to its own time.
\<close>

theorem tick_950_offset_counterexample:
  "midiState playing_in_measure_1 = Playing \<and>
   1950 - playbackStart playing_in_measure_1 = 950 \<and>
   measureIndex (state_of (synchronizeMidi 1950 playing_in_measure_1)) = 0 \<and>
   measureOffset (state_of (synchronizeMidi 1950 playing_in_measure_1)) = 0 \<and>
   measureOffset (state_of (synchronizeMidi 1950 playing_in_measure_1)) \<noteq> 50"
  using tick_scenario_at_950 [of playing_in_measure_1 1950]
  by (simp add: playing_in_measure_1_eq)

text \<open>
  C2, amended. For the raw timemap of the scenario, a synchronization tick of a playing
  engine at elapsed timeline time 950 resolves measure 0, not measure 1, by the floor
  binary search over the raw sequence, and hands the renderer the canonical start 0 and
  duration 500 of measure 0. The measure offset is the time since the measure-local
  anchor: 0 when the engine tracked another measure before the tick, which moves the
  anchor to the time of the tick, and \<open>max 0 (now - measureStart)\<close> when it tracked
  measure 0 already. It is 50 when a tick at elapsed time 900 has found the repeat.
\<close>

theorem tick_950_resolves_repeat:
  assumes "midiState p = Playing"
    and "converter_timemap p = repeat_timemap"
    and "timemap p = build_timemap repeat_timemap"
  shows "(now - playbackStart p = 950 \<longrightarrow>
           synchronizeMidi now p =
             Returned (p\<lparr> measureIndex := 0,
                  measureStart := (if measureIndex p \<noteq> 0 then now else measureStart p),
                  measureOffset := (if measureIndex p \<noteq> 0 then 0 else max 0 (now - measureStart p)),
                  calls := calls p @
                    [RendererMoveTo 0 0
                       (if measureIndex p \<noteq> 0 then 0 else max 0 (now - measureStart p))
                       (Some 500)] \<rparr>)) \<and>
         (measureIndex p \<noteq> 0 \<longrightarrow>
           measureIndex (state_of (synchronizeMidi (playbackStart p + 950)
              (state_of (synchronizeMidi (playbackStart p + 900) p)))) = 0 \<and>
           measureOffset (state_of (synchronizeMidi (playbackStart p + 950)
              (state_of (synchronizeMidi (playbackStart p + 900) p)))) = 50)"
proof (intro conjI impI)
  assume "now - playbackStart p = 950"
  with assms show "synchronizeMidi now p =
             Returned (p\<lparr> measureIndex := 0,
                  measureStart := (if measureIndex p \<noteq> 0 then now else measureStart p),
                  measureOffset := (if measureIndex p \<noteq> 0 then 0 else max 0 (now - measureStart p)),
                  calls := calls p @
                    [RendererMoveTo 0 0
                       (if measureIndex p \<noteq> 0 then 0 else max 0 (now - measureStart p))
                       (Some 500)] \<rparr>)"
    by (rule tick_scenario_at_950)
next
  assume other: "measureIndex p \<noteq> 0"
  define q where "q = state_of (synchronizeMidi (playbackStart p + 900) p)"
  have q: "q = p\<lparr> measureIndex := 0, measureStart := playbackStart p + 900, measureOffset := 0,
                  calls := calls p @ [RendererMoveTo 0 0 0 (Some 500)] \<rparr>"
    unfolding q_def using tick_scenario_at_900 [of p "playbackStart p + 900"] assms other
    by simp
  have "synchronizeMidi (playbackStart p + 950) q =
      Returned (q\<lparr> measureIndex := 0,
                  measureStart := (if measureIndex q \<noteq> 0 then playbackStart p + 950 else measureStart q),
                  measureOffset := (if measureIndex q \<noteq> 0 then 0
                                    else max 0 (playbackStart p + 950 - measureStart q)),
                  calls := calls q @
                    [RendererMoveTo 0 0
                       (if measureIndex q \<noteq> 0 then 0 else max 0 (playbackStart p + 950 - measureStart q))
                       (Some 500)] \<rparr>)"
    using assms by (intro tick_scenario_at_950) (simp_all add: q)
  then have "measureIndex (state_of (synchronizeMidi (playbackStart p + 950) q)) = 0 \<and>
      measureOffset (state_of (synchronizeMidi (playbackStart p + 950) q)) = 50"
    by (simp add: q)
  then show "measureIndex (state_of (synchronizeMidi (playbackStart p + 950)
              (state_of (synchronizeMidi (playbackStart p + 900) p)))) = 0"
    and "measureOffset (state_of (synchronizeMidi (playbackStart p + 950)
              (state_of (synchronizeMidi (playbackStart p + 900) p)))) = 50"
    by (simp_all add: q_def)
qed

text \<open>The theorem of C2 at the engine that tracks measure 1, for the frame at 1950.\<close>

theorem tick_950_resolves_repeat_witness:
  "midiState playing_in_measure_1 = Playing \<and>
   converter_timemap playing_in_measure_1 = repeat_timemap \<and>
   timemap playing_in_measure_1 = build_timemap repeat_timemap \<and>
   1950 - playbackStart playing_in_measure_1 = 950 \<and>
   measureIndex playing_in_measure_1 \<noteq> 0 \<and>
   calls (state_of (synchronizeMidi 1950 playing_in_measure_1)) =
     [MidiPlay, RendererMoveTo 1 500 0 (Some 400), RendererMoveTo 0 0 0 (Some 500)] \<and>
   measureOffset (state_of (synchronizeMidi 1950 (state_of (synchronizeMidi 1900 playing_in_measure_1)))) = 50"
  using tick_950_resolves_repeat [of playing_in_measure_1 1950]
  by (simp add: playing_in_measure_1_eq)

section \<open>Seeking\<close>

lemma last_moveTo_append:
  "last_moveTo (cs @ ds) = (case last_moveTo ds of Some r \<Rightarrow> Some r | None \<Rightarrow> last_moveTo cs)"
  by (induction cs) (auto split: option.splits)

text \<open>
  C3, as stated, fails. On the scenario's engine, \<open>moveTo(1, 0, 10)\<close> at time 1000 seeks
  the MIDI player to 510 and sets the global anchor to 490: the start is the one of the
  timemap index, 500, not the argument 0, for which the claim gives a seek to 10 and the
  anchor 990. And \<open>moveTo(7, 0, 10)\<close> raises, since measure 7 has no record.
\<close>

theorem moveTo_canonical_start_counterexample:
  "calls (state_of (moveTo 1 0 10 1000 scenario_player)) =
     [MidiSeek 510, RendererMoveTo 1 0 10 None] \<and>
   MidiSeek 510 \<noteq> MidiSeek (0 + 10) \<and>
   playbackStart (state_of (moveTo 1 0 10 1000 scenario_player)) = 490 \<and>
   playbackStart (state_of (moveTo 1 0 10 1000 scenario_player)) \<noteq> 1000 - (0 + 10) \<and>
   is_thrown (moveTo 7 0 10 1000 scenario_player)"
  by (simp add: moveTo_def scenario_player_eq scenario_timemap)

text \<open>
  C3, amended. For every measure index \<open>i\<close> that has a record in the timemap index, with
  canonical start \<open>c\<close>, every \<open>s\<close> and \<open>o\<close>, and in every state of the MIDI player,
  \<open>moveTo(i, s, o)\<close> returns, sets the measure-local anchor to \<open>now - o\<close> and the global
  anchor to \<open>now - (c + o)\<close>, seeks the MIDI player to \<open>c + o\<close>, leaves the state of the
  MIDI player as it is, tracks measure \<open>i\<close>, and hands the renderer exactly \<open>(i, s, o)\<close>,
  which is what a position read right afterwards sees. With \<open>s = c\<close> these are the values
  of the claim.
\<close>

theorem moveTo_anchors:
  assumes "timemap p i = Some r"
  shows "\<not> is_thrown (moveTo i s ofs now p) \<and>
         measureStart (state_of (moveTo i s ofs now p)) = now - ofs \<and>
         playbackStart (state_of (moveTo i s ofs now p)) = now - (start r + ofs) \<and>
         calls (state_of (moveTo i s ofs now p)) =
           calls p @ [MidiSeek (start r + ofs), RendererMoveTo i s ofs None] \<and>
         midiState (state_of (moveTo i s ofs now p)) = midiState p \<and>
         measureIndex (state_of (moveTo i s ofs now p)) = i \<and>
         position_read (state_of (moveTo i s ofs now p)) = Some (i, s, ofs)"
  using assms by (simp add: moveTo_def Let_def position_read_def last_moveTo_append)

text \<open>The theorem of C3 at the playing engine of the scenario, for measure 1 and offset 10.\<close>

theorem moveTo_anchors_witness:
  "timemap playing_from_1000 1 = Some \<lparr> start = 500, duration = 400 \<rparr> \<and>
   measureStart (state_of (moveTo 1 500 10 3000 playing_from_1000)) = 2990 \<and>
   playbackStart (state_of (moveTo 1 500 10 3000 playing_from_1000)) = 2490 \<and>
   calls (state_of (moveTo 1 500 10 3000 playing_from_1000)) =
     [MidiPlay, MidiSeek 510, RendererMoveTo 1 500 10 None] \<and>
   midiState (state_of (moveTo 1 500 10 3000 playing_from_1000)) = Playing \<and>
   position_read (state_of (moveTo 1 500 10 3000 playing_from_1000)) = Some (1, 500, 10)"
proof -
  have slot: "timemap playing_from_1000 1 = Some \<lparr> start = 500, duration = 400 \<rparr>"
    by (simp add: playing_from_1000_eq scenario_timemap)
  show ?thesis
    using moveTo_anchors [OF slot, of 500 10 3000] slot
    by (simp add: playing_from_1000_eq)
qed

section \<open>Pausing and resuming\<close>

text \<open>
  C5. When the engine is playing, \<open>pause()\<close> at time \<open>t1\<close> followed by \<open>play()\<close> at time
  \<open>t2\<close> takes the resume branch, which moves the global and the measure-local anchor
  forward by the pause duration \<open>t2 - t1\<close>: the engine plays again, in the same measure,
  and its elapsed timeline time and its measure offset at \<open>t2\<close> are those at \<open>t1\<close>. The
  settling of the promise of the paused MIDI player changes nothing. Times are reals, so
  the cancellation is exact.
\<close>

theorem pause_play_resumes:
  assumes "midiState p = Playing"
  shows "midiState (pause t1 p) = Paused \<and>
         play_settled (pause t1 p) = pause t1 p \<and>
         midiState (play t2 (pause t1 p)) = Playing \<and>
         playbackStart (play t2 (pause t1 p)) = playbackStart p + (t2 - t1) \<and>
         measureStart (play t2 (pause t1 p)) = measureStart p + (t2 - t1) \<and>
         t2 - playbackStart (play t2 (pause t1 p)) = t1 - playbackStart p \<and>
         t2 - measureStart (play t2 (pause t1 p)) = t1 - measureStart p \<and>
         measureIndex (play t2 (pause t1 p)) = measureIndex p"
  using assms by (simp add: pause_def play_def play_inner_def play_settled_def Let_def)

text \<open>The theorem of C5 at the engine that tracks measure 1: paused at 2000, resumed at 5000.\<close>

theorem pause_play_resumes_witness:
  "midiState playing_in_measure_1 = Playing \<and>
   midiState (play 5000 (pause 2000 playing_in_measure_1)) = Playing \<and>
   playbackStart (play 5000 (pause 2000 playing_in_measure_1)) = 4000 \<and>
   5000 - playbackStart (play 5000 (pause 2000 playing_in_measure_1)) = 2000 - 1000 \<and>
   measureStart (play 5000 (pause 2000 playing_in_measure_1)) = 4890 \<and>
   measureIndex (play 5000 (pause 2000 playing_in_measure_1)) = 1"
proof -
  have playing: "midiState playing_in_measure_1 = Playing"
    by (simp add: playing_in_measure_1_eq)
  show ?thesis
    using pause_play_resumes [OF playing, of 2000 5000] playing
    by (simp add: playing_in_measure_1_eq)
qed

section \<open>Construction from an empty timemap\<close>

text \<open>
  C6, as stated, fails: the constructor does not raise on the empty raw timemap.
\<close>

theorem new_Player_empty_counterexample:
  "is_thrown (new_Player []) = False"
  by (simp add: new_Player_def)

text \<open>
  C6, amended. Building the timemap index from an empty raw timemap does not fail: the
  index has no record, and the constructor returns an engine in its initial state, stopped
  with both anchors at zero.
\<close>

theorem new_Player_empty:
  "dom (build_timemap []) = {} \<and>
   new_Player [] =
     Returned \<lparr> midiState = Stopped, playbackStart = 0, playbackPause = 0, measureIndex = 0,
                measureStart = 0, measureOffset = 0, timemap = build_timemap [],
                converter_timemap = [], mute = False, calls = [] \<rparr>"
  by (simp add: new_Player_def build_timemap_def)

section \<open>Resume or fresh start\<close>

lemma paused_at_zero_eq:
  "paused_at_zero =
     \<lparr> midiState = Paused, playbackStart = 0, playbackPause = 3000, measureIndex = 1,
       measureStart = 500, measureOffset = 0,
       timemap = build_timemap repeat_timemap,
       converter_timemap = repeat_timemap, mute = False,
       calls = [MidiPlay, MidiPause, MidiSeek 3000, RendererMoveTo 1 500 2500 None] \<rparr>"
proof -
  have "pause 2000 playing_from_1000 =
      \<lparr> midiState = Paused, playbackStart = 1000, playbackPause = 2000, measureIndex = 0,
        measureStart = 1000, measureOffset = 0,
        timemap = build_timemap repeat_timemap,
        converter_timemap = repeat_timemap, mute = False,
        calls = [MidiPlay, MidiPause] \<rparr>"
    by (simp add: pause_def playing_from_1000_eq)
  then show ?thesis
    by (simp add: paused_at_zero_def playing_from_1000_def [symmetric] moveTo_def
        scenario_timemap)
qed

text \<open>
  C7, as stated, fails. The scenario's engine, played at 1000, paused at 2000 and moved
  at 3000 to timestamp 3000 of the MIDI file, is paused with the global anchor at zero.
  \<open>play()\<close> at 4000 takes the resume branch: both anchors are shifted by 1000 and the
  engine stays in measure 1, where a fresh start sets the anchors to 4000 and the measure
  to 0.
\<close>

theorem play_resume_at_zero_counterexample:
  "midiState paused_at_zero = Paused \<and>
   playbackStart paused_at_zero = 0 \<and>
   playbackStart (play 4000 paused_at_zero) = 1000 \<and>
   measureStart (play 4000 paused_at_zero) = 1500 \<and>
   measureIndex (play 4000 paused_at_zero) = 1"
  by (simp add: paused_at_zero_eq play_def play_inner_def)

text \<open>
  C7, amended. In every state in which the MIDI player is not playing, \<open>play()\<close> takes
  the resume branch (both anchors shifted by \<open>now - playbackPause\<close>, the measure kept)
  if and only if the MIDI player is paused or the global anchor is not at zero, and the
  fresh-start branch (both anchors at \<open>now\<close>, measure 0) otherwise. So the zero sentinel
  decides alone exactly when the MIDI player is not paused.
\<close>

theorem play_resume_or_fresh:
  assumes "midiState p \<noteq> Playing"
  shows "(midiState p = Paused \<or> playbackStart p \<noteq> 0 \<longrightarrow>
           playbackStart (play now p) = playbackStart p + (now - playbackPause p) \<and>
           measureStart (play now p) = measureStart p + (now - playbackPause p) \<and>
           measureIndex (play now p) = measureIndex p) \<and>
         (\<not> (midiState p = Paused \<or> playbackStart p \<noteq> 0) \<longrightarrow>
           playbackStart (play now p) = now \<and>
           measureStart (play now p) = now \<and>
           measureIndex (play now p) = 0) \<and>
         midiState (play now p) = Playing"
  using assms by (simp add: play_def play_inner_def Let_def)

text \<open>
  The theorem of C7 at the paused engine with the anchor at zero, and at the engine that
  was never started.
\<close>

theorem play_resume_or_fresh_witness:
  "midiState paused_at_zero \<noteq> Playing \<and>
   (midiState paused_at_zero = Paused \<or> playbackStart paused_at_zero \<noteq> 0) \<and>
   playbackStart (play 4000 paused_at_zero) = 0 + (4000 - 3000) \<and>
   midiState scenario_player \<noteq> Playing \<and>
   \<not> (midiState scenario_player = Paused \<or> playbackStart scenario_player \<noteq> 0) \<and>
   playbackStart (play 4000 scenario_player) = 4000 \<and>
   measureIndex (play 4000 scenario_player) = 0"
proof -
  have a: "midiState paused_at_zero \<noteq> Playing"
    by (simp add: paused_at_zero_eq)
  have b: "midiState scenario_player \<noteq> Playing"
    by (simp add: scenario_player_eq)
  show ?thesis
    using play_resume_or_fresh [OF a, of 4000] play_resume_or_fresh [OF b, of 4000]
    by (simp add: paused_at_zero_eq scenario_player_eq)
qed

section \<open>The external clock\<close>

text \<open>
  C8, as stated, fails. The scenario's engine, never started, is told of the vector with
  velocity 0 and position 5: \<open>pause()\<close> does nothing, and the engine is stopped, not
  paused.
\<close>

theorem change_pause_when_stopped_counterexample:
  "midiState (handleTimingsrcChange (Some \<lparr> position = 5, velocity = 0 \<rparr>) 1000 scenario_player)
     = Stopped"
  by (simp add: handleTimingsrcChange_def pause_def scenario_player_eq)

text \<open>
  C8, amended. On a change notification with the vector \<open>v\<close>: velocity 0 and position
  0 run \<open>rewind()\<close>, so the engine is in the state after a rewind; velocity 0 and another
  position run \<open>pause()\<close>, which brings a playing engine to Paused and leaves any other
  engine as it is; any other velocity runs \<open>play()\<close>, after which the engine is playing.
\<close>

theorem handleTimingsrcChange_command:
  "(velocity v = 0 \<and> position v = 0 \<longrightarrow>
      handleTimingsrcChange (Some v) now p = rewind p) \<and>
   (velocity v = 0 \<and> position v \<noteq> 0 \<longrightarrow>
      handleTimingsrcChange (Some v) now p = pause now p \<and>
      midiState (handleTimingsrcChange (Some v) now p) =
        (if midiState p = Playing then Paused else midiState p) \<and>
      (midiState p \<noteq> Playing \<longrightarrow> handleTimingsrcChange (Some v) now p = p)) \<and>
   (velocity v \<noteq> 0 \<longrightarrow>
      handleTimingsrcChange (Some v) now p = play now p \<and>
      midiState (handleTimingsrcChange (Some v) now p) = Playing)"
  by (simp add: handleTimingsrcChange_def pause_def play_def play_inner_def Let_def)

text \<open>The theorem of C8 at the playing engine of the scenario, for one vector of each kind.\<close>

theorem handleTimingsrcChange_command_witness:
  "handleTimingsrcChange (Some \<lparr> position = 0, velocity = 0 \<rparr>) 2000 playing_from_1000
     = rewind playing_from_1000 \<and>
   midiState (handleTimingsrcChange (Some \<lparr> position = 5, velocity = 0 \<rparr>) 2000 playing_from_1000)
     = Paused \<and>
   midiState (handleTimingsrcChange (Some \<lparr> position = 5, velocity = 1 \<rparr>) 2000 scenario_player)
     = Playing"
proof -
  have playing: "midiState playing_from_1000 = Playing"
    by (simp add: playing_from_1000_eq)
  have "handleTimingsrcChange (Some \<lparr> position = 0, velocity = 0 \<rparr>) 2000 playing_from_1000
      = rewind playing_from_1000"
    using handleTimingsrcChange_command
      [of "\<lparr> position = 0, velocity = 0 \<rparr>" 2000 playing_from_1000]
    by auto
  moreover have "midiState
      (handleTimingsrcChange (Some \<lparr> position = 5, velocity = 0 \<rparr>) 2000 playing_from_1000)
      = Paused"
    using handleTimingsrcChange_command
      [of "\<lparr> position = 5, velocity = 0 \<rparr>" 2000 playing_from_1000] playing
    by auto
  moreover have "midiState
      (handleTimingsrcChange (Some \<lparr> position = 5, velocity = 1 \<rparr>) 2000 scenario_player)
      = Playing"
    using handleTimingsrcChange_command
      [of "\<lparr> position = 5, velocity = 1 \<rparr>" 2000 scenario_player]
    by auto
  ultimately show ?thesis by simp
qed

section \<open>The output router\<close>

lemma sent_append: "sent (cs @ ds) = sent cs @ sent ds"
  by (induction cs rule: sent.induct) auto

text \<open>
  C9. With the mute flag set, \<open>send\<close> changes nothing: no event reaches the output,
  whatever its type. Without it, the event is forwarded to the output, with its timestamp,
  if and only if the parsed event has a channel; for the parser of the spec that is if and
  only if the data has a leading status byte and that byte is a channel status. An event
  that is not a channel event never reaches the output.
\<close>

theorem send_forwards_channel_events:
  "send parse data ts p =
     (if \<not> mute p \<and> has_channel (parse data)
      then p\<lparr> calls := calls p @ [OutputSend data ts] \<rparr> else p) \<and>
   sent (calls (send parse data ts p)) =
     (if \<not> mute p \<and> has_channel (parse data)
      then sent (calls p) @ [(data, ts)] else sent (calls p)) \<and>
   has_channel (parseMidiEvent channel_status data) =
     (case data of [] \<Rightarrow> False | status # rest \<Rightarrow> channel_status status)"
  by (simp add: send_def parseMidiEvent_def Let_def sent_append split: list.splits)

text \<open>
  The theorem of C9 for a note-on and for an end-of-track meta event, on the engine of the
  scenario and on the same engine muted.
\<close>

theorem send_forwards_channel_events_witness:
  "sent (calls (send below_system_status [0x90, 60, 100] (Some 1200) scenario_player)) =
     [([0x90, 60, 100], Some 1200)] \<and>
   sent (calls (send below_system_status [0xFF, 0x2F, 0] (Some 1200) scenario_player)) = [] \<and>
   sent (calls (send below_system_status [0x90, 60, 100] (Some 1200)
     (scenario_player\<lparr> mute := True \<rparr>))) = []"
  using send_forwards_channel_events [of below_system_status "[0x90, 60, 100]" "Some 1200"
      scenario_player "\<lambda>status. status < 0xF0"]
    send_forwards_channel_events [of below_system_status "[0xFF, 0x2F, 0]" "Some 1200"
      scenario_player "\<lambda>status. status < 0xF0"]
    send_forwards_channel_events [of below_system_status "[0x90, 60, 100]" "Some 1200"
      "scenario_player\<lparr> mute := True \<rparr>" "\<lambda>status. status < 0xF0"]
  by (simp add: below_system_status_def scenario_player_eq)

section \<open>Rewinding\<close>

text \<open>Each event takes related engines to related engines, issuing the same calls.\<close>

lemma same_future_moveTo:
  assumes "same_future p q"
  shows "is_thrown (moveTo i s ofs now p) = is_thrown (moveTo i s ofs now q)"
    and "drop (length (calls p)) (calls (state_of (moveTo i s ofs now p))) =
         drop (length (calls q)) (calls (state_of (moveTo i s ofs now q)))"
    and "same_future (state_of (moveTo i s ofs now p)) (state_of (moveTo i s ofs now q))"
  using assms by (auto simp: same_future_def moveTo_def Let_def split: option.splits)

lemma same_future_play:
  assumes "same_future p q"
  shows "drop (length (calls p)) (calls (play now p)) = drop (length (calls q)) (calls (play now q))"
    and "same_future (play now p) (play now q)"
  using assms by (auto simp: same_future_def play_def play_inner_def Let_def)

lemma same_future_pause:
  assumes "same_future p q"
  shows "drop (length (calls p)) (calls (pause now p)) = drop (length (calls q)) (calls (pause now q))"
    and "same_future (pause now p) (pause now q)"
  using assms by (auto simp: same_future_def pause_def)

lemma same_future_rewind:
  assumes "same_future p q"
  shows "drop (length (calls p)) (calls (rewind p)) = drop (length (calls q)) (calls (rewind q))"
    and "same_future (rewind p) (rewind q)"
  using assms by (auto simp: same_future_def rewind_def)

lemma same_future_ended:
  assumes "same_future p q"
  shows "drop (length (calls p)) (calls (ended p)) = drop (length (calls q)) (calls (ended q))"
    and "same_future (ended p) (ended q)"
  using assms by (auto simp: same_future_def ended_def play_settled_def)

lemma same_future_settled:
  assumes "same_future p q"
  shows "drop (length (calls p)) (calls (play_settled p)) =
         drop (length (calls q)) (calls (play_settled q))"
    and "same_future (play_settled p) (play_settled q)"
  using assms by (auto simp: same_future_def play_settled_def)

lemma same_future_send:
  assumes "same_future p q"
  shows "drop (length (calls p)) (calls (send parse data ts p)) =
         drop (length (calls q)) (calls (send parse data ts q))"
    and "same_future (send parse data ts p) (send parse data ts q)"
  using assms by (auto simp: same_future_def send_def Let_def)

lemma same_future_mute:
  assumes "same_future p q"
  shows "same_future (p\<lparr> mute := b \<rparr>) (q\<lparr> mute := b \<rparr>)"
  using assms by (auto simp: same_future_def)

lemma same_future_tick:
  assumes "same_future p q"
  shows "is_thrown (synchronizeMidi now p) = is_thrown (synchronizeMidi now q) \<and>
      drop (length (calls p)) (calls (state_of (synchronizeMidi now p))) =
         drop (length (calls q)) (calls (state_of (synchronizeMidi now q))) \<and>
      same_future (state_of (synchronizeMidi now p)) (state_of (synchronizeMidi now q))"
proof (cases "midiState p = Playing")
  case False
  moreover from False assms have "midiState q \<noteq> Playing"
    by (simp add: same_future_def)
  ultimately show ?thesis
    using assms by (simp add: synchronizeMidi_not_playing)
next
  case True
  moreover from True assms have "midiState q = Playing"
    by (simp add: same_future_def)
  moreover from True assms have
    "playbackStart q = playbackStart p" "converter_timemap q = converter_timemap p"
    "timemap q = timemap p" "measureIndex q = measureIndex p" "measureStart q = measureStart p"
    "mute q = mute p"
    by (simp_all add: same_future_def)
  ultimately show ?thesis
    by (simp add: synchronizeMidi_playing Let_def same_future_def split: option.splits)
qed

lemma same_future_change:
  assumes "same_future p q"
  shows "drop (length (calls p)) (calls (handleTimingsrcChange v now p)) =
         drop (length (calls q)) (calls (handleTimingsrcChange v now q))"
    and "same_future (handleTimingsrcChange v now p) (handleTimingsrcChange v now q)"
  using assms same_future_play [of p q now] same_future_pause [of p q now]
    same_future_rewind [of p q]
  by (auto simp: handleTimingsrcChange_def split: option.splits)

lemma same_future_exec:
  assumes "same_future p q"
  shows "same_future (state_of (exec parse ev p)) (state_of (exec parse ev q))"
  using assms
  by (cases ev) (simp_all add: same_future_moveTo same_future_play same_future_pause
      same_future_rewind same_future_tick same_future_ended same_future_settled
      same_future_send same_future_mute same_future_change)

lemma same_future_observe:
  assumes "same_future p q"
  shows "observe parse ev p = observe parse ev q"
proof -
  have "same_future (state_of (exec parse ev p)) (state_of (exec parse ev q))"
    using assms by (rule same_future_exec)
  then have "midiState (state_of (exec parse ev p)) = midiState (state_of (exec parse ev q))"
    by (simp add: same_future_def)
  moreover have "is_thrown (exec parse ev p) = is_thrown (exec parse ev q)"
    using assms by (cases ev) (simp_all add: same_future_moveTo same_future_tick)
  moreover have "drop (length (calls p)) (calls (state_of (exec parse ev p))) =
      drop (length (calls q)) (calls (state_of (exec parse ev q)))"
    using assms
    by (cases ev) (simp_all add: same_future_moveTo same_future_play same_future_pause
      same_future_rewind same_future_tick same_future_ended same_future_settled
      same_future_send same_future_change)
  ultimately show ?thesis
    by (simp add: observe_def Let_def)
qed

lemma same_future_trace:
  "same_future p q \<Longrightarrow> trace parse evs p = trace parse evs q"
proof (induction evs arbitrary: p q)
  case Nil
  show ?case by simp
next
  case (Cons ev evs)
  then show ?case
    using same_future_observe [of p q parse ev] same_future_exec [of p q parse ev] by simp
qed

text \<open>No event changes the timemaps.\<close>

lemma exec_timemaps:
  "timemap (state_of (exec parse ev p)) = timemap p \<and>
   converter_timemap (state_of (exec parse ev p)) = converter_timemap p"
proof (cases ev)
  case (OpTick now)
  then show ?thesis
    by (cases "midiState p = Playing")
       (simp_all add: synchronizeMidi_playing synchronizeMidi_not_playing Let_def
          split: option.splits)
qed (simp_all add: moveTo_def play_def play_inner_def pause_def rewind_def ended_def
       play_settled_def send_def handleTimingsrcChange_def Let_def split: option.splits)

lemma run_timemaps:
  "timemap (run parse evs p) = timemap p \<and>
   converter_timemap (run parse evs p) = converter_timemap p"
  by (induction evs arbitrary: p) (simp_all add: exec_timemaps)

text \<open>
  C4. After \<open>rewind()\<close>, in whatever state the engine was, the position the renderer has
  been handed is measure 0, start 0, offset 0, the MIDI player is stopped and the global
  anchor is back at zero, as in the engine that was never started; the settling of the
  promise of the stopped MIDI player changes nothing, and the next \<open>play()\<close> is a fresh
  start. The fields \<open>_measureIndex\<close>, \<open>_measureStart\<close>, \<open>_measureOffset\<close> and
  \<open>_playbackPause\<close> keep their values, but each is written before it is read again: when
  the engine has been reached from its construction by any events, every sequence of
  events has after the rewind the exceptions, the calls to the collaborators and the
  reported states it has on the never-started engine with the same mute flag.
\<close>

theorem rewind_never_started:
  assumes "p = run parse0 evs0 (state_of (new_Player tm))"
  shows "position_read (rewind p) = Some (0, 0, 0) \<and>
         midiState (rewind p) = Stopped \<and>
         playbackStart (rewind p) = 0 \<and>
         play_settled (rewind p) = rewind p \<and>
         playbackStart (play now (rewind p)) = now \<and>
         measureStart (play now (rewind p)) = now \<and>
         measureIndex (play now (rewind p)) = 0 \<and>
         trace parse evs (rewind p) =
           trace parse evs ((state_of (new_Player tm))\<lparr> mute := mute p \<rparr>)"
proof -
  have "timemap p = build_timemap tm" and "converter_timemap p = tm"
    using run_timemaps [of parse0 evs0 "state_of (new_Player tm)"] assms
    by (simp_all add: new_Player_def)
  then have "same_future (rewind p) ((state_of (new_Player tm))\<lparr> mute := mute p \<rparr>)"
    by (simp add: same_future_def rewind_def new_Player_def)
  then have "trace parse evs (rewind p) =
      trace parse evs ((state_of (new_Player tm))\<lparr> mute := mute p \<rparr>)"
    by (rule same_future_trace)
  moreover have "position_read (rewind p) = Some (0, 0, 0)"
    by (simp add: position_read_def rewind_def last_moveTo_append)
  moreover have "playbackStart (play now (rewind p)) = now \<and>
      measureStart (play now (rewind p)) = now \<and> measureIndex (play now (rewind p)) = 0"
    by (simp add: play_def play_inner_def rewind_def)
  ultimately show ?thesis
    by (simp add: rewind_def play_settled_def)
qed

text \<open>
  The theorem of C4 at the engine that tracks measure 1: after the rewind, \<open>play()\<close> at
  5000 and a frame at 5950 start the MIDI player and show measure 0 at offset 950.
\<close>

theorem rewind_never_started_witness:
  "playing_in_measure_1 =
     run (\<lambda>data. OtherEvent) [OpPlay 1000, OpTick 1890] (state_of (new_Player repeat_timemap)) \<and>
   measureIndex (rewind playing_in_measure_1) = 1 \<and>
   position_read (rewind playing_in_measure_1) = Some (0, 0, 0) \<and>
   trace (\<lambda>data. OtherEvent) [OpPlay 5000, OpTick 5950] (rewind playing_in_measure_1) =
     [(False, [MidiPlay], Playing), (False, [RendererMoveTo 0 0 950 (Some 500)], Playing)]"
proof -
  have reached: "playing_in_measure_1 =
      run (\<lambda>data. OtherEvent) [OpPlay 1000, OpTick 1890] (state_of (new_Player repeat_timemap))"
    by (simp add: playing_in_measure_1_def scenario_player_def)
  let ?fresh = "(state_of (new_Player repeat_timemap))\<lparr> mute := mute playing_in_measure_1 \<rparr>"
  have fresh: "?fresh = scenario_player"
    by (simp add: scenario_player_eq playing_in_measure_1_eq new_Player_def)
  have played: "play 5000 scenario_player =
      \<lparr> midiState = Playing, playbackStart = 5000, playbackPause = 0, measureIndex = 0,
        measureStart = 5000, measureOffset = 0, timemap = build_timemap repeat_timemap,
        converter_timemap = repeat_timemap, mute = False, calls = [MidiPlay] \<rparr>"
    by (simp add: scenario_player_eq play_def play_inner_def)
  have on_fresh: "trace (\<lambda>data. OtherEvent) [OpPlay 5000, OpTick 5950] scenario_player =
      [(False, [MidiPlay], Playing), (False, [RendererMoveTo 0 0 950 (Some 500)], Playing)]"
    using tick_scenario_at_950 [of "play 5000 scenario_player" 5950]
    by (simp add: observe_def played) (simp add: scenario_player_eq)
  note all = rewind_never_started [OF reached, of 5000 "\<lambda>data. OtherEvent" "[OpPlay 5000, OpTick 5950]"]
  have "position_read (rewind playing_in_measure_1) = Some (0, 0, 0)"
    using all by (rule conjunct1)
  moreover have "trace (\<lambda>data. OtherEvent) [OpPlay 5000, OpTick 5950] (rewind playing_in_measure_1) =
      trace (\<lambda>data. OtherEvent) [OpPlay 5000, OpTick 5950] ?fresh"
    using all by (elim conjE)
  moreover have "measureIndex (rewind playing_in_measure_1) = 1"
    by (simp add: playing_in_measure_1_eq rewind_def)
  ultimately show ?thesis
    using reached on_fresh fresh by simp
qed

section \<open>The synthesizer's note-off\<close>

lemma set_off_length: "length (set_off ch p ts ns) = length ns"
  by (induction ns) auto

lemma set_off_first:
  "i < length ns \<Longrightarrow> note_matches ch p (ns ! i) \<Longrightarrow> \<forall>j<i. \<not> note_matches ch p (ns ! j)
   \<Longrightarrow> set_off ch p ts ns = ns[i := (ns ! i)\<lparr> off := Some ts \<rparr>]"
proof (induction ns arbitrary: i)
  case Nil
  then show ?case by simp
next
  case (Cons n ns)
  show ?case
  proof (cases i)
    case 0
    with Cons.prems show ?thesis by simp
  next
    case (Suc k)
    with Cons.prems have "\<not> note_matches ch p n" by auto
    moreover have "set_off ch p ts ns = ns[k := (ns ! k)\<lparr> off := Some ts \<rparr>]"
      using Cons.prems Suc by (intro Cons.IH) auto
    ultimately show ?thesis using Suc by simp
  qed
qed

lemma set_off_none:
  "\<forall>n\<in>set ns. \<not> note_matches ch p n \<Longrightarrow> set_off ch p ts ns = ns"
  by (induction ns) auto

text \<open>
  C10. In \<open>SoundFontOutput.send\<close>, a three-byte event whose status has type 9 (note-on)
  and whose velocity is 0 is treated as a note-off: no note is started, the list of notes
  keeps its length, and the first note of that channel and pitch that is still on gets the
  timestamp of the event as its \<open>off\<close>, all other notes staying as they are; when no
  such note is on, nothing changes. The result is that of the event with type 8
  (note-off) on the same channel and pitch, whatever its velocity.
\<close>

theorem note_on_velocity_zero_is_note_off:
  assumes "drop_bit 4 status = (9::8 word)"
  shows "soundfont_send clk [status, p, 0] ts st =
           Returned (st\<lparr> notes_list := set_off (status AND 0xf) p ts (notes_list st) \<rparr>) \<and>
         length (set_off (status AND 0xf) p ts (notes_list st)) = length (notes_list st) \<and>
         (\<forall>i<length (notes_list st).
            note_matches (status AND 0xf) p (notes_list st ! i) \<and>
            (\<forall>j<i. \<not> note_matches (status AND 0xf) p (notes_list st ! j)) \<longrightarrow>
            set_off (status AND 0xf) p ts (notes_list st) =
              (notes_list st)[i := (notes_list st ! i)\<lparr> off := Some ts \<rparr>]) \<and>
         ((\<forall>n\<in>set (notes_list st). \<not> note_matches (status AND 0xf) p n) \<longrightarrow>
            set_off (status AND 0xf) p ts (notes_list st) = notes_list st) \<and>
         (\<forall>status' v. drop_bit 4 status' = (8::8 word) \<and> status' AND 0xf = status AND 0xf \<longrightarrow>
            soundfont_send clk [status', p, v] ts st = soundfont_send clk [status, p, 0] ts st)"
proof (intro conjI allI impI)
  show sent: "soundfont_send clk [status, p, 0] ts st =
      Returned (st\<lparr> notes_list := set_off (status AND 0xf) p ts (notes_list st) \<rparr>)"
    using assms by (simp add: send_one_def noteOff_def Let_def)
  show "length (set_off (status AND 0xf) p ts (notes_list st)) = length (notes_list st)"
    by (rule set_off_length)
  show "set_off (status AND 0xf) p ts (notes_list st) =
      (notes_list st)[i := (notes_list st ! i)\<lparr> off := Some ts \<rparr>]"
    if "i < length (notes_list st)"
      and "note_matches (status AND 0xf) p (notes_list st ! i) \<and>
           (\<forall>j<i. \<not> note_matches (status AND 0xf) p (notes_list st ! j))" for i
    using that by (intro set_off_first) simp_all
  show "set_off (status AND 0xf) p ts (notes_list st) = notes_list st"
    if "\<forall>n\<in>set (notes_list st). \<not> note_matches (status AND 0xf) p n"
    using that by (rule set_off_none)
  show "soundfont_send clk [status', p, v] ts st = soundfont_send clk [status, p, 0] ts st"
    if "drop_bit 4 status' = (8::8 word) \<and> status' AND 0xf = status AND 0xf" for status' v
    using that sent by (simp add: send_one_def noteOff_def Let_def)
qed

text \<open>
  The theorem of C10 for the note-on with velocity 0 on channel 3 and pitch 60, sent at
  1700 to the synthesizer on which that note is sounding.
\<close>

theorem note_on_velocity_zero_is_note_off_witness:
  "drop_bit 4 (0x93 :: 8 word) = 9 \<and>
   soundfont_send \<lparr> currentTime = 2, performance_now = 1000 \<rparr> [0x93, 60, 0] 1700 sounding =
     Returned (sounding\<lparr> notes_list := [(notes_list sounding ! 0)\<lparr> off := Some 1700 \<rparr>] \<rparr>) \<and>
   soundfont_send \<lparr> currentTime = 2, performance_now = 1000 \<rparr> [0x83, 60, 64] 1700 sounding = soundfont_send \<lparr> currentTime = 2, performance_now = 1000 \<rparr> [0x93, 60, 0] 1700 sounding"
proof -
  have type: "drop_bit 4 (0x93 :: 8 word) = 9"
    by simp
  note all = note_on_velocity_zero_is_note_off [OF type, of "\<lparr> currentTime = 2, performance_now = 1000 \<rparr>" 60 1700 sounding]
  have "soundfont_send \<lparr> currentTime = 2, performance_now = 1000 \<rparr> [0x93, 60, 0] 1700 sounding =
      Returned (sounding\<lparr> notes_list := set_off (0x93 AND 0xf) 60 1700 (notes_list sounding) \<rparr>)"
    using all by (rule conjunct1)
  moreover have "set_off (0x93 AND 0xf) 60 1700 (notes_list sounding) =
      [(notes_list sounding ! 0)\<lparr> off := Some 1700 \<rparr>]"
    using all [THEN conjunct2, THEN conjunct2, THEN conjunct1, rule_format, of 0]
    by (simp add: sounding_def note_matches_def)
  moreover have "soundfont_send \<lparr> currentTime = 2, performance_now = 1000 \<rparr> [0x83, 60, 64] 1700 sounding =
      soundfont_send \<lparr> currentTime = 2, performance_now = 1000 \<rparr> [0x93, 60, 0] 1700 sounding"
    using all [THEN conjunct2, THEN conjunct2, THEN conjunct2, THEN conjunct2, rule_format,
        of "0x83" 64]
    by simp
  ultimately show ?thesis
    using type by simp
qed

end
